theory Spec2Isabelle
  imports Main "HOL-Library.Multiset" "HOL-Library.Sublist"
begin

section \<open>JavaScript primitives used by the plugin service\<close>

text \<open>
  Strings are lists of characters. \<open>startsWith\<close>, \<open>endsWith\<close>, \<open>substring(0, n)\<close>,
  \<open>indexOf\<close>, \<open>lastIndexOf\<close> and \<open>splice(start, 1)\<close> are written out with the results
  the ECMAScript definitions give, \<open>-1\<close> for "not found" included.
\<close>

definition startsWith :: "string \<Rightarrow> string \<Rightarrow> bool" where
  "startsWith s p = (take (length p) s = p)"

definition endsWith :: "string \<Rightarrow> string \<Rightarrow> bool" where
  "endsWith s p = (length p \<le> length s \<and> drop (length s - length p) s = p)"

text \<open>\<open>s.substring(0, n)\<close>: a negative \<open>n\<close> counts as 0, one beyond the length as the length.\<close>

definition substring0 :: "string \<Rightarrow> int \<Rightarrow> string" where
  "substring0 s n = take (nat n) s"

text \<open>A string in a condition is true exactly when it is not empty; \<open>undefined\<close> is false.\<close>

definition truthy :: "string option \<Rightarrow> bool" where
  "truthy v = (case v of None \<Rightarrow> False | Some s \<Rightarrow> s \<noteq> [])"

text \<open>\<open>xs.indexOf(x)\<close>: the first position holding \<open>x\<close>, or \<open>-1\<close>.\<close>

fun indexOf :: "'a list \<Rightarrow> 'a \<Rightarrow> int" where
  "indexOf [] x = -1"
| "indexOf (y # ys) x =
     (if y = x then 0 else (let i = indexOf ys x in if i < 0 then -1 else i + 1))"

text \<open>\<open>s.lastIndexOf(c)\<close> for a one-character pattern: the last position holding \<open>c\<close>, or \<open>-1\<close>.\<close>

fun lastIndexOf :: "'a list \<Rightarrow> 'a \<Rightarrow> int" where
  "lastIndexOf [] x = -1"
| "lastIndexOf (y # ys) x =
     (let i = lastIndexOf ys x in if 0 \<le> i then i + 1 else if y = x then 0 else -1)"

text \<open>
  \<open>xs.splice(start, 1)\<close>: a negative start counts from the end (and stops at 0), a start
  beyond the length is the length; one element is removed from there, when there is one.
\<close>

definition splice1 :: "'a list \<Rightarrow> int \<Rightarrow> 'a list" where
  "splice1 xs start =
     (let n = int (length xs);
          s = (if start < 0 then max (n + start) 0 else min start n)
      in take (nat s) xs @ drop (Suc (nat s)) xs)"

text \<open>
  What a \<open>catch\<close> receives: an \<open>Error\<close> object, which has a \<open>message\<close>, or a string a
  promise was rejected with, which has none. \<open>'...' + err.message\<close> prints a missing
  message as \<open>undefined\<close>.
\<close>

datatype thrown = Error string | Rejected string

fun message :: "thrown \<Rightarrow> string option" where
  "message (Error m) = Some m"
| "message (Rejected s) = None"

fun str :: "string option \<Rightarrow> string" where
  "str None = ''undefined''"
| "str (Some s) = s"

section \<open>Data model\<close>

record ChePluginRegistry =
  name :: string
  uri :: string
  publicUri :: string

text \<open>
  An entry of a registry's index (\<open>ChePluginMetadataInternal\<close>). Its fields carry the
  prefix \<open>mi_\<close> here, since the cached metadata below has fields of the same names.
  \<open>links\<close> is a dictionary that the code tests for presence, and so is its \<open>self\<close> entry.
\<close>

record ChePluginMetadataInternal =
  mi_id :: string
  mi_displayName :: string
  mi_version :: string
  mi_type :: string
  mi_name :: string
  mi_description :: string
  mi_publisher :: string
  mi_links :: "(string \<rightharpoonup> string) option"

text \<open>
  The cached form (\<open>ChePluginMetadata\<close>); field \<open>name\<close> is \<open>pname\<close>, \<open>type\<close> is
  \<open>ptype\<close>. The same type is given to a plugin document as parsed, where nothing
  guarantees the fields. The code calls a method of \<open>icon\<close>, which throws when the
  document has none, so \<open>icon\<close> is optional here; the other fields are only read, and
  are taken to be the strings the type declares.
\<close>

record ChePluginMetadata =
  publisher :: string
  pname :: string
  version :: string
  ptype :: string
  displayName :: string
  title :: string
  description :: string
  icon :: "string option"
  url :: string
  repository :: string
  firstPublicationDate :: string
  category :: string
  latestUpdateDate :: string
  key :: string
  builtIn :: bool

text \<open>
  A devfile component: a plugin reference when \<open>plugin\<close> is defined, with optional
  \<open>url\<close> and \<open>id\<close>; everything else a component or a plugin object holds is kept as an
  opaque list of properties.
\<close>

record DevfilePlugin =
  plugin_url :: "string option"
  plugin_id :: "string option"
  plugin_rest :: "(string \<times> string) list"

record DevfileComponent =
  plugin :: "DevfilePlugin option"
  component_rest :: "(string \<times> string) list"

record Devfile =
  components :: "DevfileComponent list option"
  devfile_rest :: "(string \<times> string) list"

text \<open>The calls made on an attached client (the observer).\<close>

datatype notification =
    NotifyPluginCacheSizeChanged nat
  | NotifyPluginCached nat
  | InvalidRegistryFound ChePluginRegistry
  | InvalidPluginFound string
  | NotifyCachingComplete

text \<open>The name of the client's method behind each call.\<close>

fun methodName :: "notification \<Rightarrow> string" where
  "methodName (NotifyPluginCacheSizeChanged n) = ''notifyPluginCacheSizeChanged''"
| "methodName (NotifyPluginCached n) = ''notifyPluginCached''"
| "methodName (InvalidRegistryFound registry) = ''invalidRegistryFound''"
| "methodName (InvalidPluginFound u) = ''invalidPluginFound''"
| "methodName NotifyCachingComplete = ''notifyCachingComplete''"

text \<open>
  Everything the service awaits, in the order it happens, in one log: a request to the
  HTTP service, a read of the workspace settings, a call on the client.
\<close>

datatype event = Request string | SettingsRead | Call notification

text \<open>What \<open>JSON.parse\<close> of a registry index gives: an array of entries, or something else.\<close>

datatype index_json = JArray "ChePluginMetadataInternal list" | JOther

text \<open>A client is a remote object; what it does with a call is part of the environment.\<close>

datatype ChePluginServiceClient = Client

text \<open>
  The collaborators the service is given, which are not part of this file of the
  repository, are parameters of the model. Where the service awaits one of them, the
  answer may depend on the log so far (the first argument), so that the same address
  can fail once and answer later:
  \<^item> \<open>httpGet\<close>, \<open>HttpService.get\<close>;
  \<^item> \<open>safeLoad\<close>, the parser of plugin documents (an empty document parses to
    \<open>undefined\<close>), and \<open>jsonParse\<close>, \<open>JSON.parse\<close>;
  \<^item> \<open>parseURI\<close>, the scheme and the authority that \<open>new URI(s)\<close> finds in \<open>s\<close>;
  \<^item> \<open>getWorkspaceSettings\<close> of the workspace service: a dictionary, nothing, or a failure;
  \<^item> \<open>filterPlugins\<close>, \<open>PluginFilter.filterPlugins\<close>;
  \<^item> \<open>clientCall\<close>, what an awaited call on the client does: it resolves (\<open>None\<close>) or
    is rejected;
  \<^item> \<open>disconnects\<close>, whether \<open>disconnectClient\<close> has run by the time the service
    resumes from the await that the log ends with;
  \<^item> \<open>typeErrorText\<close>, the text the engine gives the TypeError for reading the named
    property of \<open>undefined\<close>.
\<close>

record env =
  httpGet :: "event list \<Rightarrow> string \<Rightarrow> thrown + string"
  safeLoad :: "string \<Rightarrow> thrown + ChePluginMetadata option"
  jsonParse :: "string \<Rightarrow> thrown + index_json"
  parseURI :: "string \<Rightarrow> thrown + (string \<times> string)"
  getWorkspaceSettings :: "event list \<Rightarrow> thrown + (string \<rightharpoonup> string) option"
  filterPlugins :: "ChePluginMetadata list \<Rightarrow> string \<Rightarrow> ChePluginMetadata list"
  clientCall :: "event list \<Rightarrow> notification \<Rightarrow> thrown option"
  disconnects :: "event list \<Rightarrow> bool"
  typeErrorText :: "string \<Rightarrow> string"

text \<open>The service's fields, and the log of what it has awaited so far.\<close>

record state =
  client :: "ChePluginServiceClient option"
  defaultRegistry :: "ChePluginRegistry option"
  cachedPlugins :: "ChePluginMetadata list"
  events :: "event list"

text \<open>Reading property \<open>p\<close> of \<open>undefined\<close> throws a TypeError.\<close>

definition typeError :: "env \<Rightarrow> string \<Rightarrow> thrown" where
  "typeError e p = Error (typeErrorText e p)"

text \<open>
  The service's fields as they are when an await resumes: \<open>disconnectClient\<close> may have
  run meanwhile. Nothing else interleaves with a call in this model.
\<close>

definition resume :: "env \<Rightarrow> state \<Rightarrow> state" where
  "resume e st = (if disconnects e (events st) then st\<lparr>client := None\<rparr> else st)"

definition setClient :: "ChePluginServiceClient \<Rightarrow> state \<Rightarrow> state" where
  "setClient c st = st\<lparr>client := Some c\<rparr>"

definition disconnectClient :: "ChePluginServiceClient \<Rightarrow> state \<Rightarrow> state" where
  "disconnectClient c st = st\<lparr>client := None\<rparr>"

section \<open>Registry client\<close>

definition normalizeEnding :: "string \<Rightarrow> string" where
  "normalizeEnding u =
     (if endsWith u ''/'' then substring0 u (int (length u) - 1) else u)"

definition PLUGIN_REGISTRY_URL :: string where
  "PLUGIN_REGISTRY_URL = ''cheWorkspacePluginRegistryUrl''"

definition PLUGIN_REGISTRY_INTERNAL_URL :: string where
  "PLUGIN_REGISTRY_INTERNAL_URL = ''cheWorkspacePluginRegistryInternalUrl''"

text \<open>
  \<open>getDefaultRegistry\<close>: the cached registry when there is one; otherwise the workspace
  settings are awaited. \<open>normalizeEnding\<close> of an \<open>undefined\<close> address throws a TypeError
  inside the \<open>try\<close>; the promise rejected for missing settings is returned, not awaited,
  and so passes the \<open>catch\<close>.
\<close>

definition getDefaultRegistry :: "env \<Rightarrow> state \<Rightarrow> (thrown + ChePluginRegistry) \<times> state" where
  "getDefaultRegistry e st =
     (case defaultRegistry st of
        Some r \<Rightarrow> (Inr r, st)
      | None \<Rightarrow>
          (let st1 = resume e (st\<lparr>events := events st @ [SettingsRead]\<rparr>)
           in case getWorkspaceSettings e (events st) of
                Inl error \<Rightarrow>
                  (Inl (Rejected (''Unable to get default plugin registry URI. ''
                         @ str (message error))), st1)
              | Inr None \<Rightarrow> (Inl (Rejected ''Plugin registry URI is not set.''), st1)
              | Inr (Some workspaceSettings) \<Rightarrow>
                  (let publicUri = workspaceSettings PLUGIN_REGISTRY_URL;
                       u = (if truthy (workspaceSettings PLUGIN_REGISTRY_INTERNAL_URL)
                            then workspaceSettings PLUGIN_REGISTRY_INTERNAL_URL else publicUri)
                   in case (u, publicUri) of
                        (Some u', Some p') \<Rightarrow>
                          (let r = \<lparr>name = ''Eclipse Che plugins'', uri = normalizeEnding u',
                                    publicUri = normalizeEnding p'\<rparr>
                           in (Inr r, st1\<lparr>defaultRegistry := Some r\<rparr>))
                      | _ \<Rightarrow>
                          (Inl (Rejected (''Unable to get default plugin registry URI. ''
                                 @ str (message (typeError e ''endsWith'')))), st1))))"

definition getBaseDirectory :: "ChePluginRegistry \<Rightarrow> string" where
  "getBaseDirectory registry =
     (let u = uri registry
      in if endsWith u ''.json'' then substring0 u (lastIndexOf u (CHR ''/'') + 1)
         else if \<not> endsWith u ''/'' then u @ ''/''
         else u)"

text \<open>The value of \<open>plugin.links && plugin.links.self\<close> when the condition holds
  (the index entry is \<open>plugin\<close> in the source, \<open>entry\<close> here).\<close>

definition linksSelf :: "ChePluginMetadataInternal \<Rightarrow> string option" where
  "linksSelf entry =
     (case mi_links entry of
        None \<Rightarrow> None
      | Some l \<Rightarrow> (if truthy (l ''self'') then l ''self'' else None))"

text \<open>
  \<open>getPluginYamlURI\<close> reads \<open>this.defaultRegistry.uri\<close> (a TypeError when no default
  registry is set) and may build a \<open>URI\<close>, which can fail.
\<close>

definition getPluginYamlURI ::
  "env \<Rightarrow> state \<Rightarrow> ChePluginRegistry \<Rightarrow> ChePluginMetadataInternal \<Rightarrow> thrown + string" where
  "getPluginYamlURI e st registry entry =
     (case linksSelf entry of
        Some self \<Rightarrow>
          (if startsWith self ''/'' then
             (case defaultRegistry st of
                None \<Rightarrow> Inl (typeError e ''uri'')
              | Some d \<Rightarrow>
                  (if uri registry = uri d
                   then Inr (uri registry @ ''/plugins/'' @ mi_id entry @ ''/'')
                   else (case parseURI e (uri registry) of
                           Inl err \<Rightarrow> Inl err
                         | Inr (scheme, authority) \<Rightarrow> Inr (scheme @ ''://'' @ authority @ self))))
           else Inr (getBaseDirectory registry @ self))
      | None \<Rightarrow> Inr (getBaseDirectory registry @ ''/'' @ mi_id entry @ ''/meta.yaml''))"

text \<open>\<open>await this.httpService.get(u)\<close>: the answer, and the request logged.\<close>

definition get :: "env \<Rightarrow> string \<Rightarrow> state \<Rightarrow> (thrown + string) \<times> state" where
  "get e u st = (httpGet e (events st) u, resume e (st\<lparr>events := events st @ [Request u]\<rparr>))"

definition loadPluginList ::
  "env \<Rightarrow> ChePluginRegistry \<Rightarrow> state \<Rightarrow> (thrown + index_json) \<times> state" where
  "loadPluginList e registry st =
     (let registryURI = uri registry @ ''/plugins/''
      in case get e registryURI st of
           (Inl err, st') \<Rightarrow> (Inl err, st')
         | (Inr content, st') \<Rightarrow>
             (jsonParse e (if content = [] then ''{}'' else content), st'))"

text \<open>The body of either \<open>try\<close> block of \<open>loadPluginYaml\<close>: fetch, then parse.\<close>

definition fetch ::
  "env \<Rightarrow> string \<Rightarrow> state \<Rightarrow> (thrown + ChePluginMetadata option) \<times> state" where
  "fetch e u st =
     (case get e u st of
        (Inl err, st') \<Rightarrow> (Inl err, st')
      | (Inr pluginYamlContent, st') \<Rightarrow> (safeLoad e pluginYamlContent, st'))"

definition loadPluginYaml ::
  "env \<Rightarrow> string \<Rightarrow> state \<Rightarrow> (thrown + ChePluginMetadata option) \<times> state" where
  "loadPluginYaml e yamlURI st =
     (case fetch e yamlURI st of
        (Inr doc, st1) \<Rightarrow> (Inr doc, st1)
      | (Inl err, st1) \<Rightarrow>
          (let yamlURI2 = (if \<not> endsWith yamlURI ''/'' then yamlURI @ ''/'' else yamlURI)
                          @ ''meta.yaml''
           in case fetch e yamlURI2 st1 of
                (Inr doc, st2) \<Rightarrow> (Inr doc, st2)
              | (Inl error, st2) \<Rightarrow>
                  (Inl (Rejected (''Unable to load plugin metadata. '' @ str (message err))), st2)))"

text \<open>The key that \<open>loadPluginMetadata\<close> computes (its \<open>let key\<close> block).\<close>

definition pluginKey :: "ChePluginMetadata \<Rightarrow> string \<Rightarrow> bool \<Rightarrow> string" where
  "pluginKey props yamlURI longKeyFormat =
     (let key0 = publisher props @ ''/'' @ pname props @ ''/'' @ version props
      in if longKeyFormat then
           (if endsWith yamlURI key0 then
              substring0 yamlURI (int (length yamlURI) - int (length key0))
                @ publisher props @ ''/'' @ pname props @ ''/'' @ version props
            else if endsWith yamlURI (key0 @ ''/meta.yaml'') then
              substring0 yamlURI (int (length yamlURI) - int (length (key0 @ ''/meta.yaml'')))
                @ publisher props @ ''/'' @ pname props @ ''/'' @ version props
            else key0)
         else key0)"

text \<open>
  The icon that \<open>loadPluginMetadata\<close> computes (its \<open>let icon\<close> block), for a document
  that has one.
\<close>

definition pluginIcon :: "string \<Rightarrow> string \<Rightarrow> string" where
  "pluginIcon i pluginRegistryURI =
     (if startsWith i ''http://'' \<or> startsWith i ''https://'' then i
      else if startsWith i ''/'' then pluginRegistryURI @ i
      else pluginRegistryURI @ ''/'' @ i)"

text \<open>
  \<open>loadPluginMetadata\<close>. Its \<open>try\<close> block fails when \<open>loadPluginYaml\<close> does, when the
  document is \<open>undefined\<close> (reading \<open>props.publisher\<close>), and when the document has no
  icon (reading \<open>props.icon.startsWith\<close>); the \<open>catch\<close> turns each into a rejection.
\<close>

definition loadPluginMetadata ::
  "env \<Rightarrow> string \<Rightarrow> bool \<Rightarrow> string \<Rightarrow> state \<Rightarrow> (thrown + ChePluginMetadata) \<times> state" where
  "loadPluginMetadata e yamlURI longKeyFormat pluginRegistryURI st =
     (case loadPluginYaml e yamlURI st of
        (Inl error, st') \<Rightarrow>
          (Inl (Rejected (''Unable to load plugin metadata. '' @ str (message error))), st')
      | (Inr None, st') \<Rightarrow>
          (Inl (Rejected (''Unable to load plugin metadata. ''
                 @ str (message (typeError e ''publisher'')))), st')
      | (Inr (Some props), st') \<Rightarrow>
          (case icon props of
             None \<Rightarrow>
               (Inl (Rejected (''Unable to load plugin metadata. ''
                      @ str (message (typeError e ''startsWith'')))), st')
           | Some i \<Rightarrow>
               (Inr \<lparr>publisher = publisher props, pname = pname props, version = version props,
                     ptype = ptype props, displayName = displayName props, title = title props,
                     description = description props,
                     icon = Some (pluginIcon i pluginRegistryURI),
                     url = url props, repository = repository props,
                     firstPublicationDate = firstPublicationDate props,
                     category = category props, latestUpdateDate = latestUpdateDate props,
                     key = pluginKey props yamlURI longKeyFormat, builtIn = False\<rparr>, st')))"

section \<open>Cache builder and query\<close>

definition squeezeOutEditors :: "ChePluginMetadata list \<Rightarrow> string \<Rightarrow> ChePluginMetadata list" where
  "squeezeOutEditors plugins flt = filter (\<lambda>plugin. ''Che Editor'' \<noteq> ptype plugin) plugins"

text \<open>
  \<open>await this.client.m(...)\<close>. With no client attached, reading the method throws a
  TypeError. Otherwise the call is made and logged, and the client resolves or rejects
  it.
\<close>

definition notify :: "env \<Rightarrow> notification \<Rightarrow> state \<Rightarrow> (thrown + unit) \<times> state" where
  "notify e n st =
     (case client st of
        None \<Rightarrow> (Inl (typeError e (methodName n)), st)
      | Some c \<Rightarrow>
          (let st1 = resume e (st\<lparr>events := events st @ [Call n]\<rparr>)
           in case clientCall e (events st) n of
                Some err \<Rightarrow> (Inl err, st1)
              | None \<Rightarrow> (Inr (), st1)))"

text \<open>The inner \<open>try\<close> block of \<open>updateCache\<close>, for one index entry.\<close>

definition tryPlugin ::
  "env \<Rightarrow> string \<Rightarrow> bool \<Rightarrow> string \<Rightarrow> state \<Rightarrow> (thrown + unit) \<times> state" where
  "tryPlugin e pluginYamlURI longKeyFormat pluginRegistryURI st =
     (case loadPluginMetadata e pluginYamlURI longKeyFormat pluginRegistryURI st of
        (Inl error, st1) \<Rightarrow> (Inl error, st1)
      | (Inr pluginMetadata, st1) \<Rightarrow>
          (let st2 = st1\<lparr>cachedPlugins := cachedPlugins st1 @ [pluginMetadata]\<rparr>
           in notify e (NotifyPluginCached (length (cachedPlugins st2))) st2))"

text \<open>
  The inner loop of \<open>updateCache\<close>, over the entries of one index. A failure of
  \<open>getPluginYamlURI\<close>, or of the call in the inner \<open>catch\<close>, is outside the inner
  \<open>try\<close> and leaves the loop.
\<close>

fun cachePlugins ::
  "env \<Rightarrow> ChePluginRegistry \<Rightarrow> bool \<Rightarrow> ChePluginMetadataInternal list \<Rightarrow> state
     \<Rightarrow> (thrown + unit) \<times> state" where
  "cachePlugins e registry longKeyFormat [] st = (Inr (), st)"
| "cachePlugins e registry longKeyFormat (metadataInternal # rest) st =
     (case getPluginYamlURI e st registry metadataInternal of
        Inl err \<Rightarrow> (Inl err, st)
      | Inr pluginYamlURI \<Rightarrow>
          (case tryPlugin e pluginYamlURI longKeyFormat (publicUri registry) st of
             (Inr _, st1) \<Rightarrow> cachePlugins e registry longKeyFormat rest st1
           | (Inl error, st1) \<Rightarrow>
               (case notify e (InvalidPluginFound pluginYamlURI) st1 of
                  (Inl err, st2) \<Rightarrow> (Inl err, st2)
                | (Inr _, st2) \<Rightarrow> cachePlugins e registry longKeyFormat rest st2)))"

text \<open>
  The outer \<open>try\<close> block for one registry: its outcome, the new count of available
  plugins and the new state.
\<close>

definition tryRegistry ::
  "env \<Rightarrow> ChePluginRegistry \<Rightarrow> nat \<Rightarrow> state \<Rightarrow> (thrown + unit) \<times> nat \<times> state" where
  "tryRegistry e registry availablePlugins st =
     (case loadPluginList e registry st of
        (Inl err, st1) \<Rightarrow> (Inl err, availablePlugins, st1)
      | (Inr JOther, st1) \<Rightarrow>
          (case notify e (InvalidRegistryFound registry) st1 of
             (r, st2) \<Rightarrow> (r, availablePlugins, st2))
      | (Inr (JArray registryPlugins), st1) \<Rightarrow>
          (let available' = availablePlugins + length registryPlugins
           in case notify e (NotifyPluginCacheSizeChanged available') st1 of
                (Inl err, st2) \<Rightarrow> (Inl err, available', st2)
              | (Inr _, st2) \<Rightarrow>
                  (case defaultRegistry st2 of
                     None \<Rightarrow> (Inl (typeError e ''uri''), available', st2)
                   | Some d \<Rightarrow>
                       (let longKeyFormat = (uri registry \<noteq> uri d)
                        in case cachePlugins e registry longKeyFormat registryPlugins st2 of
                             (r, st3) \<Rightarrow> (r, available', st3)))))"

text \<open>
  The loop over the registries, in the order \<open>for ... in\<close> visits them. The call in the
  outer \<open>catch\<close> is in no \<open>try\<close>: when it fails, so does \<open>updateCache\<close>.
\<close>

fun cacheRegistries ::
  "env \<Rightarrow> (string \<times> ChePluginRegistry) list \<Rightarrow> nat \<Rightarrow> state \<Rightarrow> (thrown + unit) \<times> state" where
  "cacheRegistries e [] availablePlugins st = (Inr (), st)"
| "cacheRegistries e ((registryName, registry) # rest) availablePlugins st =
     (case tryRegistry e registry availablePlugins st of
        (Inr _, available', st') \<Rightarrow> cacheRegistries e rest available' st'
      | (Inl error, available', st') \<Rightarrow>
          (case notify e (InvalidRegistryFound registry) st' of
             (Inl err, st'') \<Rightarrow> (Inl err, st'')
           | (Inr _, st'') \<Rightarrow> cacheRegistries e rest available' st''))"

definition updateCache ::
  "env \<Rightarrow> (string \<times> ChePluginRegistry) list \<Rightarrow> state \<Rightarrow> (thrown + unit) \<times> state" where
  "updateCache e registries st =
     (case client st of
        None \<Rightarrow> (Inr (), st)
      | Some _ \<Rightarrow>
          (let st1 = st\<lparr>cachedPlugins := []\<rparr>
           in case (case defaultRegistry st1 of
                      None \<Rightarrow> getDefaultRegistry e st1
                    | Some d \<Rightarrow> (Inr d, st1)) of
                (Inl err, st2) \<Rightarrow> (Inl err, st2)
              | (Inr _, st2) \<Rightarrow>
                  (case notify e (NotifyPluginCacheSizeChanged 0) st2 of
                     (Inl err, st3) \<Rightarrow> (Inl err, st3)
                   | (Inr _, st3) \<Rightarrow>
                       (case cacheRegistries e registries 0 st3 of
                          (Inl err, st4) \<Rightarrow> (Inl err, st4)
                        | (Inr _, st4) \<Rightarrow> notify e NotifyCachingComplete st4))))"

definition getPlugins :: "env \<Rightarrow> string \<Rightarrow> state \<Rightarrow> ChePluginMetadata list" where
  "getPlugins e flt st =
     (let pluginList = cachedPlugins st;
          pluginList' = (if flt \<noteq> [] then filterPlugins e pluginList flt else pluginList)
      in squeezeOutEditors pluginList' flt)"

section \<open>Devfile reconciler\<close>

definition normalizeId :: "string \<Rightarrow> string" where
  "normalizeId i =
     (if (startsWith i ''http://'' \<or> startsWith i ''https://'') \<and> endsWith i ''/meta.yaml''
      then substring0 i (int (length i) - int (length ''/meta.yaml''))
      else i)"

definition createPluginComponent :: "string \<Rightarrow> DevfileComponent" where
  "createPluginComponent i =
     (if startsWith i ''http://'' \<or> startsWith i ''https://''
      then \<lparr>plugin = Some \<lparr>plugin_url = Some (i @ ''/meta.yaml''), plugin_id = None,
                            plugin_rest = []\<rparr>, component_rest = []\<rparr>
      else \<lparr>plugin = Some \<lparr>plugin_url = None, plugin_id = Some i, plugin_rest = []\<rparr>,
            component_rest = []\<rparr>)"

text \<open>
  \<open>getWorkspacePlugins\<close>, on the devfile that \<open>devfileService.get()\<close> returned: the
  body of its \<open>forEach\<close> for one component, and the list it collects.
\<close>

definition pushPlugin :: "string list \<Rightarrow> DevfileComponent \<Rightarrow> string list" where
  "pushPlugin plugins component =
     (case plugin component of
        None \<Rightarrow> plugins
      | Some p \<Rightarrow>
          (case plugin_url p of
             Some u \<Rightarrow>
               (if u \<noteq> [] then plugins @ [normalizeId u]
                else (case plugin_id p of
                        Some i \<Rightarrow> (if i \<noteq> [] then plugins @ [i] else plugins)
                      | None \<Rightarrow> plugins))
           | None \<Rightarrow>
               (case plugin_id p of
                  Some i \<Rightarrow> (if i \<noteq> [] then plugins @ [i] else plugins)
                | None \<Rightarrow> plugins)))"

definition getWorkspacePlugins :: "Devfile \<Rightarrow> string list" where
  "getWorkspacePlugins devfile =
     (let devfileComponents = (case components devfile of None \<Rightarrow> [] | Some cs \<Rightarrow> cs)
      in foldl pushPlugin [] devfileComponents)"

text \<open>
  \<open>setWorkspacePlugins\<close>. \<open>devfileComponents.indexOf(component)\<close> compares objects by
  identity. The components of a devfile are distinct objects, so each is modelled with
  the position it has in the array as received: two pairs are equal exactly when they
  are the same object. \<open>plugins.indexOf(id)\<close> compares strings, and finds nothing for
  an \<open>undefined\<close> id.
\<close>

definition componentId :: "DevfilePlugin \<Rightarrow> string option" where
  "componentId p =
     (if truthy (plugin_url p) then map_option normalizeId (plugin_url p) else plugin_id p)"

text \<open>The body of the first \<open>forEach\<close>, on both arrays.\<close>

definition reconcileStep ::
  "(nat \<times> DevfileComponent) list \<times> string list \<Rightarrow> nat \<times> DevfileComponent
     \<Rightarrow> (nat \<times> DevfileComponent) list \<times> string list" where
  "reconcileStep arrays component =
     (case arrays of (devfileComponents, plugins) \<Rightarrow>
        (let i = (case plugin (snd component) of None \<Rightarrow> None | Some p \<Rightarrow> componentId p);
             foundIndex = (case i of None \<Rightarrow> -1 | Some s \<Rightarrow> indexOf plugins s)
         in if foundIndex \<ge> 0 then (devfileComponents, splice1 plugins foundIndex)
            else (splice1 devfileComponents (indexOf devfileComponents component), plugins)))"

text \<open>
  The result is the devfile handed to \<open>updateDevfile\<close> and the caller's array as the
  call leaves it.
\<close>

definition setWorkspacePlugins :: "Devfile \<Rightarrow> string list \<Rightarrow> Devfile \<times> string list" where
  "setWorkspacePlugins devfile plugins =
     (let cs = (case components devfile of None \<Rightarrow> [] | Some cs \<Rightarrow> cs);
          devfileComponents = zip [0 ..< length cs] cs;
          components' = filter (\<lambda>component. plugin (snd component) \<noteq> None) devfileComponents;
          (devfileComponents', plugins') =
             fold (\<lambda>component arrays. reconcileStep arrays component) components'
               (devfileComponents, plugins)
      in (devfile\<lparr>components :=
            Some (map snd devfileComponents' @ map createPluginComponent plugins')\<rparr>, plugins'))"

section \<open>Auxiliary definitions for the proofs\<close>

text \<open>The id that \<open>setWorkspacePlugins\<close> looks up for a component, if it has one.\<close>

definition refId :: "DevfileComponent \<Rightarrow> string option" where
  "refId c = (case plugin c of None \<Rightarrow> None | Some p \<Rightarrow> componentId p)"

text \<open>
  A recursive description of the first \<open>forEach\<close> of \<open>setWorkspacePlugins\<close>: the
  components that stay, in order, and what is left of the array of plugins. Lemma
  \<open>setWorkspacePlugins_kept\<close> below shows that the loop computes exactly this.
\<close>

fun kept :: "DevfileComponent list \<Rightarrow> string list \<Rightarrow> DevfileComponent list \<times> string list" where
  "kept [] pl = ([], pl)"
| "kept (c # cs) pl =
     (if plugin c = None then (c # fst (kept cs pl), snd (kept cs pl))
      else (case refId c of
              None \<Rightarrow> kept cs pl
            | Some s \<Rightarrow>
                (if s \<in> set pl
                 then (c # fst (kept cs (remove1 s pl)), snd (kept cs (remove1 s pl)))
                 else kept cs pl)))"

subsection \<open>What the log of a cache update shows\<close>

text \<open>The calls on the client in a piece of the log, in order.\<close>

fun calls :: "event list \<Rightarrow> notification list" where
  "calls [] = []"
| "calls (Call n # evs) = n # calls evs"
| "calls (Request u # evs) = calls evs"
| "calls (SettingsRead # evs) = calls evs"


fun plugin_cached :: "notification \<Rightarrow> bool" where
  "plugin_cached (NotifyPluginCached k) = True"
| "plugin_cached (InvalidPluginFound u) = False"
| "plugin_cached (NotifyPluginCacheSizeChanged k) = False"
| "plugin_cached (InvalidRegistryFound registry) = False"
| "plugin_cached NotifyCachingComplete = False"



text \<open>
  For the proofs: the state \<open>st'\<close> comes from \<open>st\<close> by the events \<open>new\<close>, with the client
  and the default registry as they were and one plugin more in the cache for every
  \<open>notifyPluginCached\<close>; and the environment in which no call on the client is rejected
  and the client is not disconnected.
\<close>

definition extends :: "state \<Rightarrow> event list \<Rightarrow> state \<Rightarrow> bool" where
  "extends st new st' \<longleftrightarrow>
     events st' = events st @ new \<and> client st' = client st
     \<and> defaultRegistry st' = defaultRegistry st
     \<and> length (cachedPlugins st')
         = length (cachedPlugins st) + length (filter plugin_cached (calls new))"

definition undisturbed :: "env \<Rightarrow> bool" where
  "undisturbed e \<longleftrightarrow> (\<forall>h n. clientCall e h n = None) \<and> (\<forall>h. \<not> disconnects e h)"

subsection \<open>Example collaborators and inputs\<close>

text \<open>
  Two registries, \<open>A\<close> (the default one) and \<open>B\<close>. The index of \<open>A\<close> lists one
  plugin; the index of \<open>B\<close> cannot be fetched. Plugin documents are served at
  \<open>.../pub/pl/1.0/meta.yaml\<close> under both registries, and nowhere else. The client
  accepts every call and stays attached.
\<close>

definition example_props :: ChePluginMetadata where
  "example_props =
     \<lparr>publisher = ''pub'', pname = ''pl'', version = ''1.0'', ptype = ''VS Code extension'',
      displayName = ''Pl'', title = ''Pl'', description = ''a plugin'',
      icon = Some ''/images/pl.svg'',
      url = [], repository = [], firstPublicationDate = [], category = ''Other'',
      latestUpdateDate = [], key = [], builtIn = False\<rparr>"

definition example_entry :: ChePluginMetadataInternal where
  "example_entry =
     \<lparr>mi_id = ''pub/pl/1.0'', mi_displayName = ''Pl'', mi_version = ''1.0'',
      mi_type = ''VS Code extension'', mi_name = ''pl'', mi_description = ''a plugin'',
      mi_publisher = ''pub'', mi_links = Some [''self'' \<mapsto> ''/v3/plugins/pub/pl/1.0'']\<rparr>"

definition example_env :: env where
  "example_env =
     \<lparr>httpGet = (\<lambda>history u.
         if u = ''http://reg/a/plugins/'' then Inr ''index''
         else if u = ''http://reg/a/plugins/pub/pl/1.0/meta.yaml''
               \<or> u = ''http://reg/b/plugins/pub/pl/1.0/meta.yaml'' then Inr ''yaml''
         else if u = ''http://reg/b/plugins/pub/bare/1.0'' then Inr ''bare''
         else Inl (Error (''404 '' @ u))),
      safeLoad = (\<lambda>content.
         if content = ''yaml'' then Inr (Some example_props)
         else if content = ''bare'' then Inr (Some (example_props\<lparr>pname := ''bare'', icon := None\<rparr>))
         else Inl (Error ''bad document'')),
      jsonParse = (\<lambda>content. if content = ''index'' then Inr (JArray [example_entry])
                               else Inr JOther),
      parseURI = (\<lambda>s. Inr (''http'', ''reg'')),
      getWorkspaceSettings =
        (\<lambda>history. Inr (Some [PLUGIN_REGISTRY_URL \<mapsto> ''http://reg/a/''])),
      filterPlugins = (\<lambda>plugins flt. plugins),
      clientCall = (\<lambda>history n. None),
      disconnects = (\<lambda>history. False),
      typeErrorText =
        (\<lambda>p. ''Cannot read property '' @ [CHR 0x27] @ p @ [CHR 0x27] @ '' of undefined'')\<rparr>"

text \<open>
  Three variations: the workspace settings cannot be read; the client rejects the report
  of an invalid registry \<open>B\<close>; the client is disconnected while the index of \<open>B\<close> is
  being fetched.
\<close>

definition env_settings_down :: env where
  "env_settings_down =
     example_env\<lparr>getWorkspaceSettings := (\<lambda>history. Inl (Error ''down''))\<rparr>"

definition env_call_rejected :: env where
  "env_call_rejected =
     example_env\<lparr>clientCall := (\<lambda>history n.
        case n of InvalidRegistryFound registry \<Rightarrow> Some (Error ''connection lost'')
                | _ \<Rightarrow> None)\<rparr>"

definition env_client_leaves :: env where
  "env_client_leaves =
     example_env\<lparr>disconnects := (\<lambda>history.
        history \<noteq> [] \<and> last history = Request ''http://reg/b/plugins/'')\<rparr>"

definition registryA :: ChePluginRegistry where
  "registryA = \<lparr>name = ''A'', uri = ''http://reg/a'', publicUri = ''http://reg/a''\<rparr>"

definition registryB :: ChePluginRegistry where
  "registryB = \<lparr>name = ''B'', uri = ''http://reg/b'', publicUri = ''http://reg/b''\<rparr>"

definition example_state :: state where
  "example_state =
     \<lparr>client = Some Client, defaultRegistry = None, cachedPlugins = [], events = []\<rparr>"

text \<open>A devfile with a plugin by id, a component that is no plugin, and a plugin by url.\<close>

definition example_devfile :: Devfile where
  "example_devfile =
     \<lparr>components = Some
        [\<lparr>plugin = Some \<lparr>plugin_url = None, plugin_id = Some ''pub/old/0.1'', plugin_rest = []\<rparr>,
          component_rest = []\<rparr>,
         \<lparr>plugin = None, component_rest = [(''dockerimage'', ''tools'')]\<rparr>,
         \<lparr>plugin = Some \<lparr>plugin_url = Some ''https://x/y/meta.yaml'', plugin_id = None,
                          plugin_rest = []\<rparr>, component_rest = []\<rparr>],
      devfile_rest = [(''apiVersion'', ''1.0.0'')]\<rparr>"

lemmas example_defs =
  example_props_def example_entry_def example_env_def registryA_def registryB_def
  example_state_def example_devfile_def env_settings_down_def env_call_rejected_def
  env_client_leaves_def

lemmas registry_defs =
  getDefaultRegistry_def truthy_def PLUGIN_REGISTRY_URL_def PLUGIN_REGISTRY_INTERNAL_URL_def
  normalizeEnding_def endsWith_def startsWith_def substring0_def getPluginYamlURI_def
  linksSelf_def get_def resume_def fetch_def loadPluginList_def loadPluginYaml_def
  loadPluginMetadata_def pluginKey_def pluginIcon_def typeError_def

lemmas cache_defs =
  updateCache_def tryRegistry_def tryPlugin_def notify_def

section \<open>Facts about the string primitives\<close>

lemma startsWith_append [simp]: "startsWith (p @ s) p"
  by (simp add: startsWith_def)

lemma startsWith_length: "startsWith s p \<Longrightarrow> length p \<le> length s"
proof -
  assume "startsWith s p"
  then have "length (take (length p) s) = length p"
    by (simp only: startsWith_def)
  then show ?thesis by simp
qed

lemma startsWith_appendI: "startsWith s p \<Longrightarrow> startsWith (s @ t) p"
  using startsWith_length [of s p] by (simp add: startsWith_def)

lemma endsWith_append [simp]: "endsWith (s @ p) p"
  by (simp add: endsWith_def)

lemma endsWith_iff: "endsWith s p \<longleftrightarrow> (\<exists>t. s = t @ p)"
proof
  assume "endsWith s p"
  then have "s = take (length s - length p) s @ p"
    by (metis append_take_drop_id endsWith_def)
  then show "\<exists>t. s = t @ p" ..
next
  assume "\<exists>t. s = t @ p"
  then show "endsWith s p" by (auto simp: endsWith_def)
qed

lemma endsWith_last: "endsWith s p \<Longrightarrow> p \<noteq> [] \<Longrightarrow> last s = last p"
  by (auto simp: endsWith_iff)

lemma substring0_diff:
  "substring0 s (int (length s) - int (length p)) = take (length s - length p) s"
proof -
  have "nat (int (length s) - int (length p)) = length s - length p" by arith
  then show ?thesis by (simp only: substring0_def)
qed

lemma indexOf_ge: "- 1 \<le> indexOf xs x"
  by (induction xs) (auto simp: Let_def)

lemma indexOf_found: "0 \<le> indexOf xs x \<longleftrightarrow> x \<in> set xs"
  using indexOf_ge [of _ x] by (induction xs) (auto simp: Let_def)

lemma splice1_Cons: "0 \<le> i \<Longrightarrow> splice1 (y # ys) (i + 1) = y # splice1 ys i"
  by (auto simp: splice1_def Let_def nat_add_distrib min_def)

text \<open>Splicing at the index of an element that is there removes its first occurrence.\<close>

lemma splice1_indexOf: "x \<in> set xs \<Longrightarrow> splice1 xs (indexOf xs x) = remove1 x xs"
proof (induction xs)
  case Nil
  then show ?case by simp
next
  case (Cons y ys)
  show ?case
  proof (cases "y = x")
    case True
    then show ?thesis by (simp add: splice1_def)
  next
    case False
    then have "x \<in> set ys" using Cons.prems by simp
    then have "0 \<le> indexOf ys x" by (simp add: indexOf_found)
    then show ?thesis using False Cons.IH \<open>x \<in> set ys\<close> by (simp add: Let_def splice1_Cons)
  qed
qed

section \<open>Plugin references: \<open>createPluginComponent\<close> and \<open>normalizeId\<close>\<close>

lemma normalizeId_create:
  "startsWith k ''http://'' \<or> startsWith k ''https://'' \<Longrightarrow> normalizeId (k @ ''/meta.yaml'') = k"
  by (auto simp: normalizeId_def substring0_def dest: startsWith_appendI)

text \<open>
  Claim C9. The reference component built for a key reads back as that key: for a key
  that starts with \<open>http://\<close> or \<open>https://\<close> the component has a \<open>url\<close>, and
  \<open>normalizeId\<close> of it is the key (the \<open>/meta.yaml\<close> that was appended is cut off
  again); for any other key the component has the key as its \<open>id\<close>.
\<close>

theorem createPluginComponent_roundtrip:
  "(startsWith k ''http://'' \<or> startsWith k ''https://'' \<longrightarrow>
      (\<exists>p. plugin (createPluginComponent k) = Some p \<and>
           map_option normalizeId (plugin_url p) = Some k))
   \<and> (\<not> (startsWith k ''http://'' \<or> startsWith k ''https://'') \<longrightarrow>
      (\<exists>p. plugin (createPluginComponent k) = Some p \<and> plugin_id p = Some k))"
  by (auto simp: createPluginComponent_def normalizeId_create)

theorem createPluginComponent_roundtrip_witness:
  "startsWith ''https://x/y'' ''https://''
   \<and> (\<exists>p. plugin (createPluginComponent ''https://x/y'') = Some p \<and>
           map_option normalizeId (plugin_url p) = Some ''https://x/y'')
   \<and> \<not> (startsWith ''pub/pl/1.0'' ''http://'' \<or> startsWith ''pub/pl/1.0'' ''https://'')
   \<and> (\<exists>p. plugin (createPluginComponent ''pub/pl/1.0'') = Some p \<and>
           plugin_id p = Some ''pub/pl/1.0'')"
  using createPluginComponent_roundtrip [of "''https://x/y''"]
        createPluginComponent_roundtrip [of "''pub/pl/1.0''"]
  by (simp add: startsWith_def)

section \<open>Registry client\<close>

text \<open>
  Claim C6, as the code has it. For a registry whose \<open>uri\<close> ends with \<open>/\<close> (such a
  \<open>uri\<close> never ends with \<open>.json\<close>), \<open>getBaseDirectory\<close> returns the \<open>uri\<close> as it is:
  the result ends with \<open>/\<close>, and it ends with exactly one \<open>/\<close> when the \<open>uri\<close> does
  not end with \<open>//\<close>. Slashes are added, never removed.
\<close>

theorem getBaseDirectory_trailing_slash:
  assumes "endsWith (uri registry) ''/''"
  shows "\<not> endsWith (uri registry) ''.json''
         \<and> getBaseDirectory registry = uri registry
         \<and> endsWith (getBaseDirectory registry) ''/''
         \<and> (\<not> endsWith (uri registry) ''//'' \<longrightarrow>
              \<not> endsWith (getBaseDirectory registry) ''//'')"
proof -
  have "\<not> endsWith (uri registry) ''.json''"
    using endsWith_last [of "uri registry" "''/''"]
          endsWith_last [of "uri registry" "''.json''"] assms
    by auto
  then show ?thesis using assms by (simp add: getBaseDirectory_def)
qed

theorem getBaseDirectory_trailing_slash_witness:
  "endsWith (uri \<lparr>name = ''r'', uri = ''http://reg/a/'', publicUri = ''http://reg''\<rparr>) ''/''
   \<and> \<not> endsWith (uri \<lparr>name = ''r'', uri = ''http://reg/a/'', publicUri = ''http://reg''\<rparr>) ''//''
   \<and> getBaseDirectory \<lparr>name = ''r'', uri = ''http://reg/a/'', publicUri = ''http://reg''\<rparr>
       = ''http://reg/a/''
   \<and> \<not> endsWith
         (getBaseDirectory \<lparr>name = ''r'', uri = ''http://reg/a/'', publicUri = ''http://reg''\<rparr>)
         ''//''"
  using getBaseDirectory_trailing_slash
    [of "\<lparr>name = ''r'', uri = ''http://reg/a/'', publicUri = ''http://reg''\<rparr>"]
  by (simp add: endsWith_def)

text \<open>
  The claim as the specification words it fails for a \<open>uri\<close> that ends with two
  slashes: the result keeps both.
\<close>

theorem getBaseDirectory_double_slash:
  "endsWith (uri \<lparr>name = ''r'', uri = ''http://reg//'', publicUri = ''http://reg''\<rparr>) ''/''
   \<and> \<not> endsWith (uri \<lparr>name = ''r'', uri = ''http://reg//'', publicUri = ''http://reg''\<rparr>) ''.json''
   \<and> getBaseDirectory \<lparr>name = ''r'', uri = ''http://reg//'', publicUri = ''http://reg''\<rparr>
       = ''http://reg//''
   \<and> endsWith
        (getBaseDirectory \<lparr>name = ''r'', uri = ''http://reg//'', publicUri = ''http://reg''\<rparr>)
        ''//''"
  by (simp add: getBaseDirectory_def endsWith_def)

text \<open>
  Claim C2. For an index entry whose \<open>links.self\<close> is present and starts with \<open>/\<close>,
  and a registry whose \<open>uri\<close> is that of the resolved default registry,
  \<open>getPluginYamlURI\<close> returns \<open>{registry.uri}/plugins/{id}/\<close>, whatever else
  \<open>links.self\<close> says.
\<close>

theorem getPluginYamlURI_default_registry:
  assumes "mi_links entry = Some l" and "l ''self'' = Some self" and "startsWith self ''/''"
    and "defaultRegistry st = Some d" and "uri registry = uri d"
  shows "getPluginYamlURI e st registry entry
         = Inr (uri registry @ ''/plugins/'' @ mi_id entry @ ''/'')"
proof -
  have "self \<noteq> []" using assms(3) by (auto simp: startsWith_def)
  then have "linksSelf entry = Some self"
    using assms(1,2) by (simp add: linksSelf_def truthy_def)
  then show ?thesis using assms(3,4,5) by (simp add: getPluginYamlURI_def)
qed

theorem getPluginYamlURI_default_registry_witness:
  "mi_links example_entry = Some [''self'' \<mapsto> ''/v3/plugins/pub/pl/1.0'']
   \<and> [''self'' \<mapsto> ''/v3/plugins/pub/pl/1.0''] ''self'' = Some ''/v3/plugins/pub/pl/1.0''
   \<and> startsWith ''/v3/plugins/pub/pl/1.0'' ''/''
   \<and> defaultRegistry (example_state\<lparr>defaultRegistry := Some registryA\<rparr>) = Some registryA
   \<and> getPluginYamlURI example_env (example_state\<lparr>defaultRegistry := Some registryA\<rparr>)
        registryA example_entry = Inr ''http://reg/a/plugins/pub/pl/1.0/''"
  using getPluginYamlURI_default_registry
    [of example_entry "[''self'' \<mapsto> ''/v3/plugins/pub/pl/1.0'']" "''/v3/plugins/pub/pl/1.0''"
        "example_state\<lparr>defaultRegistry := Some registryA\<rparr>" registryA registryA example_env]
  by (simp add: example_defs startsWith_def)

text \<open>
  Claim C7. \<open>loadPluginYaml\<close> returns the document of the first fetch when that
  succeeds, after one request. When the first fetch fails it makes exactly one more
  request, at the address with \<open>meta.yaml\<close> appended (and a \<open>/\<close> before it unless the
  address ends with one), and returns that document when the second fetch succeeds. When
  both fail it is rejected with a text that carries the message of the first error.
\<close>

theorem loadPluginYaml_retry:
  "(fetch e u st = (Inr doc, st1) \<longrightarrow>
      loadPluginYaml e u st = (Inr doc, st1) \<and> events st1 = events st @ [Request u])
   \<and> (fetch e u st = (Inl err, st1)
        \<and> fetch e ((if endsWith u ''/'' then u else u @ ''/'') @ ''meta.yaml'') st1
            = (Inr doc, st2) \<longrightarrow>
      loadPluginYaml e u st = (Inr doc, st2)
      \<and> events st2
          = events st @ [Request u,
                         Request ((if endsWith u ''/'' then u else u @ ''/'') @ ''meta.yaml'')])
   \<and> (fetch e u st = (Inl err, st1)
        \<and> fetch e ((if endsWith u ''/'' then u else u @ ''/'') @ ''meta.yaml'') st1
            = (Inl err2, st2) \<longrightarrow>
      loadPluginYaml e u st
        = (Inl (Rejected (''Unable to load plugin metadata. '' @ str (message err))), st2)
      \<and> events st2
          = events st @ [Request u,
                         Request ((if endsWith u ''/'' then u else u @ ''/'') @ ''meta.yaml'')])"
proof -
  have r: "events s' = events s @ [Request a]" if "fetch e a s = (x, s')" for a s x s'
    using that by (auto simp: fetch_def get_def resume_def split: sum.splits if_splits)
  show ?thesis
    by (auto simp: loadPluginYaml_def Let_def dest!: r)
qed

theorem loadPluginYaml_retry_witness:
  "fetch example_env ''http://reg/b/plugins/pub/pl/1.0/meta.yaml'' example_state
     = (Inr (Some example_props),
        example_state\<lparr>events := [Request ''http://reg/b/plugins/pub/pl/1.0/meta.yaml'']\<rparr>)
   \<and> loadPluginYaml example_env ''http://reg/b/plugins/pub/pl/1.0/meta.yaml'' example_state
     = (Inr (Some example_props),
        example_state\<lparr>events := [Request ''http://reg/b/plugins/pub/pl/1.0/meta.yaml'']\<rparr>)
   \<and> fetch example_env ''http://reg/b/plugins/pub/pl/1.0'' example_state
     = (Inl (Error ''404 http://reg/b/plugins/pub/pl/1.0''),
        example_state\<lparr>events := [Request ''http://reg/b/plugins/pub/pl/1.0'']\<rparr>)
   \<and> loadPluginYaml example_env ''http://reg/b/plugins/pub/pl/1.0'' example_state
     = (Inr (Some example_props),
        example_state\<lparr>events := [Request ''http://reg/b/plugins/pub/pl/1.0'',
                                  Request ''http://reg/b/plugins/pub/pl/1.0/meta.yaml'']\<rparr>)
   \<and> fetch example_env ''http://reg/c/'' example_state
     = (Inl (Error ''404 http://reg/c/''),
        example_state\<lparr>events := [Request ''http://reg/c/'']\<rparr>)
   \<and> fetch example_env ''http://reg/c/meta.yaml''
        (example_state\<lparr>events := [Request ''http://reg/c/'']\<rparr>)
     = (Inl (Error ''404 http://reg/c/meta.yaml''),
        example_state\<lparr>events := [Request ''http://reg/c/'',
                                  Request ''http://reg/c/meta.yaml'']\<rparr>)
   \<and> loadPluginYaml example_env ''http://reg/c/'' example_state
     = (Inl (Rejected ''Unable to load plugin metadata. 404 http://reg/c/''),
        example_state\<lparr>events := [Request ''http://reg/c/'',
                                  Request ''http://reg/c/meta.yaml'']\<rparr>)"
  using loadPluginYaml_retry
    [of example_env "''http://reg/b/plugins/pub/pl/1.0/meta.yaml''" example_state
        "Some example_props"
        "example_state\<lparr>events := [Request ''http://reg/b/plugins/pub/pl/1.0/meta.yaml'']\<rparr>"]
    loadPluginYaml_retry
    [of example_env "''http://reg/b/plugins/pub/pl/1.0''" example_state "Some example_props"
        "example_state\<lparr>events := [Request ''http://reg/b/plugins/pub/pl/1.0'']\<rparr>"
        "Error ''404 http://reg/b/plugins/pub/pl/1.0''"
        "example_state\<lparr>events := [Request ''http://reg/b/plugins/pub/pl/1.0'',
                                  Request ''http://reg/b/plugins/pub/pl/1.0/meta.yaml'']\<rparr>"]
    loadPluginYaml_retry
    [of example_env "''http://reg/c/''" example_state _
        "example_state\<lparr>events := [Request ''http://reg/c/'']\<rparr>"
        "Error ''404 http://reg/c/''"
        "example_state\<lparr>events := [Request ''http://reg/c/'',
                                  Request ''http://reg/c/meta.yaml'']\<rparr>"
        "Error ''404 http://reg/c/meta.yaml''"]
  by (simp add: example_env_def example_state_def fetch_def get_def resume_def endsWith_def)

text \<open>The key block of \<open>loadPluginMetadata\<close>, with the short key named.\<close>

lemma pluginKey_cases:
  assumes "k = publisher props @ ''/'' @ pname props @ ''/'' @ version props"
  shows "pluginKey props u long =
     (if long then
        (if endsWith u k then take (length u - length k) u @ k
         else if endsWith u (k @ ''/meta.yaml'')
              then take (length u - length (k @ ''/meta.yaml'')) u @ k
         else k)
      else k)"
  unfolding pluginKey_def Let_def substring0_diff assms by simp

text \<open>What \<open>loadPluginMetadata\<close> makes of a document, by whether it has an icon.\<close>

lemma loadPluginMetadata_Some:
  assumes "loadPluginYaml e u st = (Inr (Some props), st')"
  shows "loadPluginMetadata e u long reg st =
     (case icon props of
        None \<Rightarrow> (Inl (Rejected (''Unable to load plugin metadata. ''
                        @ typeErrorText e ''startsWith'')), st')
      | Some i \<Rightarrow>
          (Inr \<lparr>publisher = publisher props, pname = pname props, version = version props,
                ptype = ptype props, displayName = displayName props, title = title props,
                description = description props, icon = Some (pluginIcon i reg),
                url = url props, repository = repository props,
                firstPublicationDate = firstPublicationDate props,
                category = category props, latestUpdateDate = latestUpdateDate props,
                key = pluginKey props u long, builtIn = False\<rparr>, st'))"
  using assms by (simp add: loadPluginMetadata_def typeError_def split: option.splits)

text \<open>
  Claim C4. For a plugin document with publisher \<open>p\<close>, name \<open>n\<close> and version \<open>v\<close>
  that \<open>loadPluginYaml\<close> loaded for the address \<open>u\<close>, with \<open>k = p/n/v\<close>:
  \<open>loadPluginMetadata\<close> returns metadata when the document has an icon, and is
  rejected when it has none. The key of the metadata it returns is \<open>k\<close> when the long
  format is not asked for; with the long format it is the part of \<open>u\<close> before the
  suffix \<open>k\<close> followed by \<open>k\<close> when \<open>u\<close> ends with \<open>k\<close>, the part of \<open>u\<close> before the
  suffix \<open>k/meta.yaml\<close> followed by \<open>k\<close> when \<open>u\<close> ends with \<open>k/meta.yaml\<close> (the
  first test decides where both suffixes match), and \<open>k\<close> again when \<open>u\<close> ends with
  neither.
\<close>

theorem loadPluginMetadata_key:
  assumes "loadPluginYaml e u st = (Inr (Some props), st')"
    and "k = publisher props @ ''/'' @ pname props @ ''/'' @ version props"
  shows "(icon props \<noteq> None \<longrightarrow> (\<exists>md. loadPluginMetadata e u long reg st = (Inr md, st')))
      \<and> (icon props = None \<longrightarrow> (\<exists>err. loadPluginMetadata e u long reg st = (Inl err, st')))
      \<and> (\<forall>md s. loadPluginMetadata e u long reg st = (Inr md, s) \<longrightarrow>
            (\<not> long \<longrightarrow> key md = k)
            \<and> (long \<and> endsWith u k \<longrightarrow> key md = take (length u - length k) u @ k)
            \<and> (long \<and> \<not> endsWith u k \<and> endsWith u (k @ ''/meta.yaml'') \<longrightarrow>
                  key md = take (length u - length (k @ ''/meta.yaml'')) u @ k)
            \<and> (long \<and> \<not> endsWith u k \<and> \<not> endsWith u (k @ ''/meta.yaml'') \<longrightarrow>
                  key md = k))"
proof (cases "icon props")
  case None
  then show ?thesis by (simp add: loadPluginMetadata_Some [OF assms(1)])
next
  case (Some i)
  have keys: "(\<not> long \<longrightarrow> key md = k)
            \<and> (long \<and> endsWith u k \<longrightarrow> key md = take (length u - length k) u @ k)
            \<and> (long \<and> \<not> endsWith u k \<and> endsWith u (k @ ''/meta.yaml'') \<longrightarrow>
                  key md = take (length u - length (k @ ''/meta.yaml'')) u @ k)
            \<and> (long \<and> \<not> endsWith u k \<and> \<not> endsWith u (k @ ''/meta.yaml'') \<longrightarrow>
                  key md = k)"
    if "loadPluginMetadata e u long reg st = (Inr md, s)" for md s
  proof -
    have "key md = pluginKey props u long"
      using that Some by (auto simp: loadPluginMetadata_Some [OF assms(1)])
    then show ?thesis
      by (simp add: pluginKey_cases [OF assms(2)] del: length_append)
  qed
  have ex: "\<exists>md. loadPluginMetadata e u long reg st = (Inr md, st')"
    using Some by (simp add: loadPluginMetadata_Some [OF assms(1)])
  show ?thesis
  proof (intro conjI)
    show "icon props \<noteq> None \<longrightarrow> (\<exists>md. loadPluginMetadata e u long reg st = (Inr md, st'))"
      using ex by simp
    show "icon props = None \<longrightarrow> (\<exists>err. loadPluginMetadata e u long reg st = (Inl err, st'))"
      using Some by simp
    show "\<forall>md s. loadPluginMetadata e u long reg st = (Inr md, s) \<longrightarrow>
            (\<not> long \<longrightarrow> key md = k)
            \<and> (long \<and> endsWith u k \<longrightarrow> key md = take (length u - length k) u @ k)
            \<and> (long \<and> \<not> endsWith u k \<and> endsWith u (k @ ''/meta.yaml'') \<longrightarrow>
                  key md = take (length u - length (k @ ''/meta.yaml'')) u @ k)
            \<and> (long \<and> \<not> endsWith u k \<and> \<not> endsWith u (k @ ''/meta.yaml'') \<longrightarrow>
                  key md = k)"
    proof (intro allI impI)
      fix md s
      assume "loadPluginMetadata e u long reg st = (Inr md, s)"
      then show "(\<not> long \<longrightarrow> key md = k)
            \<and> (long \<and> endsWith u k \<longrightarrow> key md = take (length u - length k) u @ k)
            \<and> (long \<and> \<not> endsWith u k \<and> endsWith u (k @ ''/meta.yaml'') \<longrightarrow>
                  key md = take (length u - length (k @ ''/meta.yaml'')) u @ k)
            \<and> (long \<and> \<not> endsWith u k \<and> \<not> endsWith u (k @ ''/meta.yaml'') \<longrightarrow>
                  key md = k)"
        by (rule keys)
    qed
  qed
qed

theorem loadPluginMetadata_key_witness:
  "loadPluginYaml example_env ''http://reg/a/plugins/pub/pl/1.0/'' example_state
     = (Inr (Some example_props),
        example_state\<lparr>events := [Request ''http://reg/a/plugins/pub/pl/1.0/'',
                                  Request ''http://reg/a/plugins/pub/pl/1.0/meta.yaml'']\<rparr>)
   \<and> icon example_props \<noteq> None
   \<and> (\<exists>md st'. loadPluginMetadata example_env ''http://reg/a/plugins/pub/pl/1.0/'' False
                  ''http://reg/a'' example_state = (Inr md, st')
          \<and> key md = ''pub/pl/1.0'')
   \<and> endsWith ''http://reg/b/plugins/pub/pl/1.0'' ''pub/pl/1.0''
   \<and> (\<exists>md st'. loadPluginMetadata example_env ''http://reg/b/plugins/pub/pl/1.0'' True
                  ''http://reg/b'' example_state = (Inr md, st')
          \<and> key md = ''http://reg/b/plugins/pub/pl/1.0'')
   \<and> \<not> endsWith ''http://reg/b/plugins/pub/pl/1.0/meta.yaml'' ''pub/pl/1.0''
   \<and> endsWith ''http://reg/b/plugins/pub/pl/1.0/meta.yaml'' ''pub/pl/1.0/meta.yaml''
   \<and> (\<exists>md st'. loadPluginMetadata example_env ''http://reg/b/plugins/pub/pl/1.0/meta.yaml'' True
                  ''http://reg/b'' example_state = (Inr md, st')
          \<and> key md = ''http://reg/b/plugins/pub/pl/1.0'')
   \<and> \<not> endsWith ''http://reg/a/plugins/pub/pl/1.0/'' ''pub/pl/1.0''
   \<and> \<not> endsWith ''http://reg/a/plugins/pub/pl/1.0/'' ''pub/pl/1.0/meta.yaml''
   \<and> (\<exists>md st'. loadPluginMetadata example_env ''http://reg/a/plugins/pub/pl/1.0/'' True
                  ''http://reg/a'' example_state = (Inr md, st')
          \<and> key md = ''pub/pl/1.0'')
   \<and> loadPluginYaml example_env ''http://reg/b/plugins/pub/bare/1.0'' example_state
     = (Inr (Some (example_props\<lparr>pname := ''bare'', icon := None\<rparr>)),
        example_state\<lparr>events := [Request ''http://reg/b/plugins/pub/bare/1.0'']\<rparr>)
   \<and> icon (example_props\<lparr>pname := ''bare'', icon := None\<rparr>) = None
   \<and> (\<exists>err st'. loadPluginMetadata example_env ''http://reg/b/plugins/pub/bare/1.0'' True
                   ''http://reg/b'' example_state = (Inl err, st'))"
proof -
  have l1: "loadPluginYaml example_env ''http://reg/a/plugins/pub/pl/1.0/'' example_state
     = (Inr (Some example_props),
        example_state\<lparr>events := [Request ''http://reg/a/plugins/pub/pl/1.0/'',
                                  Request ''http://reg/a/plugins/pub/pl/1.0/meta.yaml'']\<rparr>)"
    by (simp add: example_env_def example_state_def loadPluginYaml_def fetch_def get_def
        resume_def endsWith_def)
  have l2: "loadPluginYaml example_env ''http://reg/b/plugins/pub/pl/1.0'' example_state
     = (Inr (Some example_props),
        example_state\<lparr>events := [Request ''http://reg/b/plugins/pub/pl/1.0'',
                                  Request ''http://reg/b/plugins/pub/pl/1.0/meta.yaml'']\<rparr>)"
    by (simp add: example_env_def example_state_def loadPluginYaml_def fetch_def get_def
        resume_def endsWith_def)
  have l3: "loadPluginYaml example_env ''http://reg/b/plugins/pub/pl/1.0/meta.yaml'' example_state
     = (Inr (Some example_props),
        example_state\<lparr>events := [Request ''http://reg/b/plugins/pub/pl/1.0/meta.yaml'']\<rparr>)"
    by (simp add: example_env_def example_state_def loadPluginYaml_def fetch_def get_def
        resume_def endsWith_def)
  have l5: "loadPluginYaml example_env ''http://reg/b/plugins/pub/bare/1.0'' example_state
     = (Inr (Some (example_props\<lparr>pname := ''bare'', icon := None\<rparr>)),
        example_state\<lparr>events := [Request ''http://reg/b/plugins/pub/bare/1.0'']\<rparr>)"
    by (simp add: example_env_def example_state_def loadPluginYaml_def fetch_def get_def
        resume_def endsWith_def)
  have k: "''pub/pl/1.0''
           = publisher example_props @ ''/'' @ pname example_props @ ''/'' @ version example_props"
    by (simp add: example_props_def)
  have k5: "''pub/bare/1.0''
           = publisher (example_props\<lparr>pname := ''bare'', icon := None\<rparr>) @ ''/''
             @ pname (example_props\<lparr>pname := ''bare'', icon := None\<rparr>) @ ''/''
             @ version (example_props\<lparr>pname := ''bare'', icon := None\<rparr>)"
    by (simp add: example_props_def)
  have i: "icon example_props \<noteq> None"
    and i5: "icon (example_props\<lparr>pname := ''bare'', icon := None\<rparr>) = None"
    by (simp_all add: example_props_def)
  have e2: "endsWith ''http://reg/b/plugins/pub/pl/1.0'' ''pub/pl/1.0''"
    and e3: "\<not> endsWith ''http://reg/b/plugins/pub/pl/1.0/meta.yaml'' ''pub/pl/1.0''"
            "endsWith ''http://reg/b/plugins/pub/pl/1.0/meta.yaml'' ''pub/pl/1.0/meta.yaml''"
    and e4: "\<not> endsWith ''http://reg/a/plugins/pub/pl/1.0/'' ''pub/pl/1.0''"
            "\<not> endsWith ''http://reg/a/plugins/pub/pl/1.0/'' ''pub/pl/1.0/meta.yaml''"
    by (simp_all add: endsWith_def)
  have w1: "\<exists>md st'. loadPluginMetadata example_env ''http://reg/a/plugins/pub/pl/1.0/'' False
                  ''http://reg/a'' example_state = (Inr md, st') \<and> key md = ''pub/pl/1.0''"
    using i loadPluginMetadata_key [OF l1 k, of False "''http://reg/a''"] by force
  have w2: "\<exists>md st'. loadPluginMetadata example_env ''http://reg/b/plugins/pub/pl/1.0'' True
                  ''http://reg/b'' example_state = (Inr md, st')
          \<and> key md = ''http://reg/b/plugins/pub/pl/1.0''"
    using i e2 loadPluginMetadata_key [OF l2 k, of True "''http://reg/b''"] by force
  have w3: "\<exists>md st'. loadPluginMetadata example_env ''http://reg/b/plugins/pub/pl/1.0/meta.yaml''
                  True ''http://reg/b'' example_state = (Inr md, st')
          \<and> key md = ''http://reg/b/plugins/pub/pl/1.0''"
    using i e3 loadPluginMetadata_key [OF l3 k, of True "''http://reg/b''"] by force
  have w4: "\<exists>md st'. loadPluginMetadata example_env ''http://reg/a/plugins/pub/pl/1.0/'' True
                  ''http://reg/a'' example_state = (Inr md, st') \<and> key md = ''pub/pl/1.0''"
    using i e4 loadPluginMetadata_key [OF l1 k, of True "''http://reg/a''"] by force
  have w5: "\<exists>err st'. loadPluginMetadata example_env ''http://reg/b/plugins/pub/bare/1.0'' True
                   ''http://reg/b'' example_state = (Inl err, st')"
    using i5 loadPluginMetadata_key [OF l5 k5, of True "''http://reg/b''"] by force
  show ?thesis
    using l1 l5 i i5 e2 e3 e4 w1 w2 w3 w4 w5 by blast
qed

text \<open>The rejection for the document without icon, in full.\<close>

lemma loadPluginMetadata_no_icon:
  "loadPluginMetadata example_env ''http://reg/b/plugins/pub/bare/1.0'' True ''http://reg/b''
     example_state
   = (Inl (Rejected
        ''Unable to load plugin metadata. Cannot read property 'startsWith' of undefined''),
      example_state\<lparr>events := [Request ''http://reg/b/plugins/pub/bare/1.0'']\<rparr>)"
  by (simp add: example_env_def example_state_def example_props_def registry_defs)

section \<open>Query\<close>

text \<open>
  Claim C5, as the code has it. Whatever the cache holds and whatever the filter is,
  \<open>getPlugins\<close> returns no entry whose type is \<open>Che Editor\<close>, the type that
  \<open>squeezeOutEditors\<close> removes.
\<close>

theorem getPlugins_no_Che_Editor: "''Che Editor'' \<notin> ptype ` set (getPlugins e flt st)"
  by (auto simp: getPlugins_def squeezeOutEditors_def Let_def)

text \<open>An entry whose type is the word \<open>editor\<close> is returned like any other.\<close>

theorem getPlugins_returns_editor:
  "ptype (example_props\<lparr>ptype := ''editor''\<rparr>) = ''editor''
   \<and> getPlugins example_env []
        (example_state\<lparr>cachedPlugins := [example_props\<lparr>ptype := ''editor''\<rparr>]\<rparr>)
       = [example_props\<lparr>ptype := ''editor''\<rparr>]"
  by (simp add: getPlugins_def squeezeOutEditors_def example_state_def example_props_def)

section \<open>Cache builder\<close>

subsection \<open>The log of calls\<close>






subsection \<open>Steps of an undisturbed update\<close>

lemma resume_undisturbed: "undisturbed e \<Longrightarrow> resume e st = st"
  by (simp add: undisturbed_def resume_def)

lemma notify_undisturbed:
  "undisturbed e \<Longrightarrow> client st = Some c \<Longrightarrow>
   notify e n st = (Inr (), st\<lparr>events := events st @ [Call n]\<rparr>)"
  by (simp add: notify_def resume_undisturbed) (simp add: undisturbed_def)




lemma extends_notify:
  "undisturbed e \<Longrightarrow> client st = Some c \<Longrightarrow> \<not> plugin_cached n \<Longrightarrow>
   notify e n st = (Inr (), snd (notify e n st)) \<and> extends st [Call n] (snd (notify e n st))"
  by (simp add: notify_undisturbed extends_def)











text \<open>
  The run of the example in full: registry \<open>A\<close> yields one plugin (its document is
  found at the second attempt), registry \<open>B\<close> is reported as invalid.
\<close>

lemma updateCache_example:
  "fst (updateCache example_env [(''A'', registryA), (''B'', registryB)] example_state) = Inr ()
   \<and> events (snd (updateCache example_env [(''A'', registryA), (''B'', registryB)] example_state))
     = [SettingsRead,
        Call (NotifyPluginCacheSizeChanged 0),
        Request ''http://reg/a/plugins/'',
        Call (NotifyPluginCacheSizeChanged 1),
        Request ''http://reg/a/plugins/pub/pl/1.0/'',
        Request ''http://reg/a/plugins/pub/pl/1.0/meta.yaml'',
        Call (NotifyPluginCached 1),
        Request ''http://reg/b/plugins/'',
        Call (InvalidRegistryFound registryB),
        Call NotifyCachingComplete]
   \<and> map key (cachedPlugins
        (snd (updateCache example_env [(''A'', registryA), (''B'', registryB)] example_state)))
     = [''pub/pl/1.0'']"
  by (simp add: example_defs registry_defs cache_defs Let_def)


section \<open>Devfile reconciler\<close>

subsection \<open>The loop of \<open>setWorkspacePlugins\<close> computes \<open>kept\<close>\<close>

lemma refId_plugin: "refId c = Some s \<Longrightarrow> plugin c \<noteq> None"
  by (cases "plugin c") (simp_all add: refId_def)

lemma reconcileStep_found:
  "plugin (snd x) = Some p \<Longrightarrow> componentId p = Some s \<Longrightarrow> s \<in> set pl \<Longrightarrow>
   reconcileStep (dc, pl) x = (dc, remove1 s pl)"
  by (simp add: reconcileStep_def Let_def indexOf_found splice1_indexOf)

lemma reconcileStep_missing:
  assumes "refId (snd x) = None \<or> (\<exists>s. refId (snd x) = Some s \<and> s \<notin> set pl)"
    and "x \<in> set dc"
  shows "reconcileStep (dc, pl) x = (remove1 x dc, pl)"
proof -
  have "\<not> 0 \<le> (case refId (snd x) of None \<Rightarrow> - 1 | Some s \<Rightarrow> indexOf pl s)"
    using assms(1) by (auto simp: indexOf_found)
  then show ?thesis using assms(2)
    by (simp add: reconcileStep_def Let_def refId_def splice1_indexOf)
qed

text \<open>
  The invariant of the loop: the array of components is the part already decided
  (\<open>pre\<close>) followed by the part still to visit (\<open>rest\<close>). The objects are distinct, so
  removing the visited object removes the head of \<open>rest\<close> and nothing else.
\<close>

lemma fold_reconcileStep:
  "distinct (pre @ rest) \<Longrightarrow>
   fold (\<lambda>component arrays. reconcileStep arrays component)
     (filter (\<lambda>component. plugin (snd component) \<noteq> None) rest) (pre @ rest, pl) = (dc', pl')
   \<Longrightarrow> map snd dc' = map snd pre @ fst (kept (map snd rest) pl)
       \<and> pl' = snd (kept (map snd rest) pl)"
proof (induction rest arbitrary: pre pl)
  case Nil
  then show ?case by simp
next
  case (Cons x xs)
  have d: "distinct ((pre @ [x]) @ xs)" using Cons.prems(1) by simp
  show ?case
  proof (cases "plugin (snd x)")
    case None
    then show ?thesis using Cons.IH [OF d, of pl] Cons.prems(2) by simp
  next
    case (Some p)
    show ?thesis
    proof (cases "\<exists>s. componentId p = Some s \<and> s \<in> set pl")
      case True
      then obtain s where s: "componentId p = Some s" "s \<in> set pl" by blast
      then show ?thesis
        using Cons.IH [OF d, of "remove1 s pl"] Cons.prems(2) Some
        by (simp add: reconcileStep_found refId_def)
    next
      case False
      then have m: "refId (snd x) = None \<or> (\<exists>s. refId (snd x) = Some s \<and> s \<notin> set pl)"
        using Some by (cases "componentId p") (auto simp: refId_def)
      have r: "remove1 x (pre @ x # xs) = pre @ xs"
        using Cons.prems(1) by (simp add: remove1_append)
      have d': "distinct (pre @ xs)" using Cons.prems(1) by simp
      show ?thesis
        using Cons.IH [OF d', of pl] Cons.prems(2) Some m False
        by (auto simp: reconcileStep_missing r split: option.splits)
    qed
  qed
qed

lemma setWorkspacePlugins_kept:
  "setWorkspacePlugins devfile plugins =
     (let cs = (case components devfile of None \<Rightarrow> [] | Some cs \<Rightarrow> cs)
      in (devfile\<lparr>components :=
            Some (fst (kept cs plugins) @ map createPluginComponent (snd (kept cs plugins)))\<rparr>,
          snd (kept cs plugins)))"
proof -
  define cs where "cs = (case components devfile of None \<Rightarrow> [] | Some cs \<Rightarrow> cs)"
  define dc where "dc = zip [0 ..< length cs] cs"
  obtain dc' pl' where f: "fold (\<lambda>component arrays. reconcileStep arrays component)
     (filter (\<lambda>component. plugin (snd component) \<noteq> None) dc) (dc, plugins) = (dc', pl')"
    by (cases "fold (\<lambda>component arrays. reconcileStep arrays component)
     (filter (\<lambda>component. plugin (snd component) \<noteq> None) dc) (dc, plugins)")
  have "distinct ([] @ dc)" by (simp add: dc_def distinct_zipI1)
  from fold_reconcileStep [OF this, of plugins dc' pl'] f
  have "map snd dc' = fst (kept cs plugins)" and "pl' = snd (kept cs plugins)"
    by (simp_all add: dc_def)
  then show ?thesis
    using f by (simp add: setWorkspacePlugins_def Let_def cs_def [symmetric] dc_def [symmetric])
qed

subsection \<open>Components that are no plugin references\<close>

lemma kept_frame:
  "filter (\<lambda>c. plugin c = None) (fst (kept cs pl)) = filter (\<lambda>c. plugin c = None) cs"
  by (induction cs arbitrary: pl) (auto split: option.splits)

lemma createPluginComponent_plugin: "plugin (createPluginComponent k) \<noteq> None"
  by (simp add: createPluginComponent_def)

lemma created_plugins: "filter (\<lambda>c. plugin c = None) (map createPluginComponent pl) = []"
  by (induction pl) (simp_all add: createPluginComponent_plugin)

text \<open>
  Claim C8. For every devfile and every array of plugins, the components whose \<open>plugin\<close>
  is undefined are, in the devfile that \<open>setWorkspacePlugins\<close> writes, the same
  components in the same order as before, however they are interleaved with plugin
  references.
\<close>

theorem setWorkspacePlugins_frame:
  "\<exists>cs'. components (fst (setWorkspacePlugins devfile plugins)) = Some cs'
     \<and> filter (\<lambda>c. plugin c = None) cs'
         = filter (\<lambda>c. plugin c = None)
             (case components devfile of None \<Rightarrow> [] | Some cs \<Rightarrow> cs)"
  by (simp add: setWorkspacePlugins_kept Let_def kept_frame created_plugins)

subsection \<open>The caller's array\<close>

lemma kept_subseq: "subseq (fst (kept cs pl)) cs"
  by (induction cs arbitrary: pl) (auto split: option.splits)

lemma subseq_remove1: "subseq (remove1 x xs) xs"
  by (induction xs) auto

lemma kept_plugins_subseq: "subseq (snd (kept cs pl)) pl"
proof (induction cs arbitrary: pl)
  case Nil
  then show ?case by simp
next
  case (Cons c cs)
  have "subseq (snd (kept cs (remove1 s pl))) pl" for s
    using Cons.IH [of "remove1 s pl"] subseq_remove1 [of s pl] subseq_order.order_trans
    by blast
  then show ?case using Cons.IH by (auto split: option.splits)
qed

lemma kept_plugins_mset:
  "mset (snd (kept cs pl)) = mset pl - mset (List.map_filter refId cs)"
proof (induction cs arbitrary: pl)
  case Nil
  then show ?case by (simp add: map_filter_simps)
next
  case (Cons c cs)
  show ?case
  proof (cases "refId c")
    case None
    then show ?thesis
      using Cons.IH by (auto simp: map_filter_simps refId_def split: option.splits)
  next
    case (Some s)
    then have p: "plugin c \<noteq> None" by (rule refId_plugin)
    have "mset pl - {#s#} - mset (List.map_filter refId cs)
          = mset pl - add_mset s (mset (List.map_filter refId cs))"
      by simp
    moreover have "s \<notin> set pl \<Longrightarrow> mset pl - {#s#} = mset pl"
      by simp
    ultimately show ?thesis using Cons.IH Some p
      by (auto simp: map_filter_simps simp del: diff_diff_add_mset)
  qed
qed

text \<open>The id that is looked up in the array, written out.\<close>

lemma refId_explicit:
  "refId = (\<lambda>c. case plugin c of
               None \<Rightarrow> None
             | Some p \<Rightarrow> (case plugin_url p of
                            None \<Rightarrow> plugin_id p
                          | Some u \<Rightarrow> if u \<noteq> [] then Some (normalizeId u) else plugin_id p))"
  by (auto simp: refId_def componentId_def truthy_def fun_eq_iff split: option.splits)

text \<open>
  Claim C10. \<open>setWorkspacePlugins\<close> changes the array it is given. Each existing
  plugin reference whose id (\<open>normalizeId\<close> of its \<open>url\<close> when that is set and not
  empty, its \<open>id\<close> otherwise) is in the array when the component is visited takes one
  occurrence of that id out of it: as multisets, the array after the call is the array
  before minus the ids of the existing plugin references, and its remaining entries keep
  their order. What is left in the array is exactly the list of keys for which new
  components were appended, behind components that were there before.
\<close>

theorem setWorkspacePlugins_splices_plugins:
  "(case setWorkspacePlugins devfile plugins of
      (devfile', plugins') \<Rightarrow>
        mset plugins' = mset plugins
           - mset (List.map_filter
                     (\<lambda>c. case plugin c of
                            None \<Rightarrow> None
                          | Some p \<Rightarrow>
                              (case plugin_url p of
                                 None \<Rightarrow> plugin_id p
                               | Some u \<Rightarrow>
                                   if u \<noteq> [] then Some (normalizeId u) else plugin_id p))
                     (case components devfile of None \<Rightarrow> [] | Some cs \<Rightarrow> cs))
        \<and> subseq plugins' plugins
        \<and> (\<exists>ks. subseq ks (case components devfile of None \<Rightarrow> [] | Some cs \<Rightarrow> cs)
               \<and> components devfile' = Some (ks @ map createPluginComponent plugins')))"
  using kept_subseq kept_plugins_subseq kept_plugins_mset
  by (simp add: setWorkspacePlugins_kept Let_def refId_explicit [symmetric])

text \<open>
  On the example devfile: the plugin by id is dropped, the plugin by url stays and its
  key leaves the array, and a component is appended for the key that remains.
\<close>

lemma setWorkspacePlugins_example:
  "setWorkspacePlugins example_devfile [''https://x/y'', ''pub/pl/1.0'']
     = (example_devfile\<lparr>components := Some
          [\<lparr>plugin = None, component_rest = [(''dockerimage'', ''tools'')]\<rparr>,
           \<lparr>plugin = Some \<lparr>plugin_url = Some ''https://x/y/meta.yaml'', plugin_id = None,
                            plugin_rest = []\<rparr>, component_rest = []\<rparr>,
           \<lparr>plugin = Some \<lparr>plugin_url = None, plugin_id = Some ''pub/pl/1.0'',
                            plugin_rest = []\<rparr>, component_rest = []\<rparr>]\<rparr>,
        [''pub/pl/1.0''])"
  by code_simp

text \<open>
  The theorem at the example: the ids of the two existing plugin references are
  \<open>pub/old/0.1\<close> and \<open>https://x/y\<close>; the array \<open>[https://x/y, pub/pl/1.0]\<close> is left
  as \<open>[pub/pl/1.0]\<close>, and behind the two components that stay, one component is
  appended, for \<open>pub/pl/1.0\<close>.
\<close>

theorem setWorkspacePlugins_splices_plugins_witness:
  "snd (setWorkspacePlugins example_devfile [''https://x/y'', ''pub/pl/1.0'']) = [''pub/pl/1.0'']
   \<and> mset (snd (setWorkspacePlugins example_devfile [''https://x/y'', ''pub/pl/1.0'']))
       = mset [''https://x/y'', ''pub/pl/1.0''] - mset [''pub/old/0.1'', ''https://x/y'']
   \<and> components (fst (setWorkspacePlugins example_devfile [''https://x/y'', ''pub/pl/1.0'']))
       = Some ([\<lparr>plugin = None, component_rest = [(''dockerimage'', ''tools'')]\<rparr>,
                \<lparr>plugin = Some \<lparr>plugin_url = Some ''https://x/y/meta.yaml'', plugin_id = None,
                                 plugin_rest = []\<rparr>, component_rest = []\<rparr>]
               @ map createPluginComponent [''pub/pl/1.0''])"
proof -
  have ids: "List.map_filter
               (\<lambda>c. case plugin c of
                      None \<Rightarrow> None
                    | Some p \<Rightarrow>
                        (case plugin_url p of
                           None \<Rightarrow> plugin_id p
                         | Some u \<Rightarrow> if u \<noteq> [] then Some (normalizeId u) else plugin_id p))
               (case components example_devfile of None \<Rightarrow> [] | Some cs \<Rightarrow> cs)
             = [''pub/old/0.1'', ''https://x/y'']"
    by (simp add: example_devfile_def map_filter_simps normalizeId_def startsWith_def
        endsWith_def substring0_def)
  show ?thesis
    using setWorkspacePlugins_splices_plugins
            [where devfile = example_devfile and plugins = "[''https://x/y'', ''pub/pl/1.0'']"]
    unfolding ids
    by (simp add: setWorkspacePlugins_example createPluginComponent_def startsWith_def)
qed

subsection \<open>Reading back what was set\<close>

lemma pushPlugin_append: "pushPlugin acc c = acc @ pushPlugin [] c"
  by (simp add: pushPlugin_def split: option.splits)

lemma foldl_pushPlugin: "foldl pushPlugin acc cs = acc @ concat (map (pushPlugin []) cs)"
proof (induction cs arbitrary: acc)
  case Nil
  then show ?case by simp
next
  case (Cons c cs)
  show ?case using Cons.IH [of "pushPlugin acc c"] pushPlugin_append [of acc c] by simp
qed

text \<open>A component that was matched under a non-empty id is listed under that id.\<close>

lemma pushPlugin_refId: "refId c = Some s \<Longrightarrow> s \<noteq> [] \<Longrightarrow> pushPlugin [] c = [s]"
  by (auto simp: refId_def componentId_def pushPlugin_def truthy_def
      split: option.splits if_splits)

lemma pushPlugin_None: "plugin c = None \<Longrightarrow> pushPlugin [] c = []"
  by (simp add: pushPlugin_def)

lemma pushPlugin_create: "k \<noteq> [] \<Longrightarrow> pushPlugin [] (createPluginComponent k) = [k]"
  by (auto simp: pushPlugin_def createPluginComponent_def normalizeId_create)

lemma pushPlugin_create_all:
  "[] \<notin> set pl \<Longrightarrow> concat (map (pushPlugin [] \<circ> createPluginComponent) pl) = pl"
  by (induction pl) (auto simp: pushPlugin_create)

lemma kept_listing:
  "[] \<notin> set pl \<Longrightarrow>
   mset (concat (map (pushPlugin []) (fst (kept cs pl)))) + mset (snd (kept cs pl)) = mset pl"
proof (induction cs arbitrary: pl)
  case Nil
  then show ?case by simp
next
  case (Cons c cs)
  show ?case
  proof (cases "\<exists>s. refId c = Some s \<and> s \<in> set pl")
    case True
    then obtain s where s: "refId c = Some s" "s \<in> set pl" by blast
    then have ne: "s \<noteq> []" using Cons.prems by auto
    obtain p where p: "plugin c = Some p" using s(1) refId_plugin by blast
    have "[] \<notin> set (remove1 s pl)" using Cons.prems by (auto dest: notin_set_remove1)
    from Cons.IH [OF this] show ?thesis using s p ne by (simp add: pushPlugin_refId)
  next
    case False
    then show ?thesis using Cons.IH [OF Cons.prems]
      by (auto simp: pushPlugin_None refId_def split: option.splits)
  qed
qed

lemma kept_plugins_subset: "set (snd (kept cs pl)) \<subseteq> set pl"
proof (induction cs arbitrary: pl)
  case Nil
  then show ?case by simp
next
  case (Cons c cs)
  have "set (snd (kept cs (remove1 s pl))) \<subseteq> set pl" for s
    using Cons.IH [of "remove1 s pl"] set_remove1_subset [of s pl] by blast
  then show ?case using Cons.IH by (auto split: option.splits)
qed

lemma kept_empty: "[] \<notin> set pl \<Longrightarrow> [] \<notin> set (snd (kept cs pl))"
  using kept_plugins_subset [of cs pl] by blast

text \<open>With no empty key, the keys read back are the keys set, each as often as it was set.\<close>

lemma setWorkspacePlugins_listing:
  assumes "[] \<notin> set S"
  shows "mset (getWorkspacePlugins (fst (setWorkspacePlugins devfile S))) = mset S"
proof -
  define cs where "cs = (case components devfile of None \<Rightarrow> [] | Some cs \<Rightarrow> cs)"
  have "getWorkspacePlugins (fst (setWorkspacePlugins devfile S))
        = concat (map (pushPlugin []) (fst (kept cs S))) @ snd (kept cs S)"
    using kept_empty [OF assms, of cs]
    by (simp add: setWorkspacePlugins_kept getWorkspacePlugins_def Let_def cs_def [symmetric]
        foldl_pushPlugin pushPlugin_create_all)
  then show ?thesis
    using kept_listing [OF assms, of cs] by simp
qed

text \<open>
  Claim C1, as the code has it. For every devfile (whether or not its plugin references
  have exactly one of \<open>url\<close> and \<open>id\<close>) and every list \<open>S\<close> of keys none of which is
  the empty string: \<open>getWorkspacePlugins\<close> of the devfile that \<open>setWorkspacePlugins\<close>
  writes for \<open>S\<close> yields exactly the keys of \<open>S\<close>, as a set.
\<close>

theorem setWorkspacePlugins_then_getWorkspacePlugins:
  assumes "[] \<notin> set S"
  shows "set (getWorkspacePlugins (fst (setWorkspacePlugins devfile S))) = set S"
  using setWorkspacePlugins_listing [OF assms] by (rule mset_eq_setD)

theorem setWorkspacePlugins_then_getWorkspacePlugins_witness:
  "[] \<notin> set [''https://x/y'', ''pub/pl/1.0'']
   \<and> set (getWorkspacePlugins
            (fst (setWorkspacePlugins example_devfile [''https://x/y'', ''pub/pl/1.0''])))
       = set [''https://x/y'', ''pub/pl/1.0'']"
  using setWorkspacePlugins_then_getWorkspacePlugins
    [of "[''https://x/y'', ''pub/pl/1.0'']" example_devfile]
  by simp

text \<open>
  The claim as the specification words it fails for the empty string as a key: the
  component built for it has an empty \<open>id\<close>, which \<open>getWorkspacePlugins\<close> skips. The
  devfile here has no components at all.
\<close>

theorem setWorkspacePlugins_empty_key_lost:
  "getWorkspacePlugins
     (fst (setWorkspacePlugins \<lparr>components = None, devfile_rest = []\<rparr> [[]])) = []
   \<and> set (getWorkspacePlugins
            (fst (setWorkspacePlugins \<lparr>components = None, devfile_rest = []\<rparr> [[]])))
       \<noteq> set [[]]"
  by (simp add: setWorkspacePlugins_def getWorkspacePlugins_def pushPlugin_def
      createPluginComponent_def startsWith_def)

end
